theory Spec2Isabelle
  imports Main
begin

section \<open>Python values and strings\<close>

text \<open>
  The values an attribute, an identifier or a filter holds: \<open>None\<close>, a bool, an
  unbounded integer, a string, or any other object (a float, a list, a dict), kept
  abstract as \<open>PObj\<close>. None of these values can be called.
\<close>

datatype 'x pyval = PNone | PBool bool | PInt int | PStr string | PObj 'x

text \<open>The exceptions the model layer raises.\<close>

datatype error = ValueError | TypeError | AttributeError | KeyError | IndexError
  | NotImplementedError

definition digit_char :: "nat \<Rightarrow> char" where
  "digit_char d = char_of (48 + d)"

function string_of_nat :: "nat \<Rightarrow> string" where
  "string_of_nat n =
     (if n < 10 then [digit_char n] else string_of_nat (n div 10) @ [digit_char (n mod 10)])"
  by pat_completeness auto
termination
  by (relation "measure (\<lambda>n. n)") auto

declare string_of_nat.simps [simp del]

definition string_of_int :: "int \<Rightarrow> string" where
  "string_of_int i = (if i < 0 then ''-'' @ string_of_nat (nat (- i)) else string_of_nat (nat i))"

text \<open>
  \<open>str(v)\<close>, which \<open>"{}".format(v)\<close> inserts. The rendering of an object that is
  not a scalar is the parameter \<open>S\<close>.
\<close>

fun py_str :: "('x \<Rightarrow> string) \<Rightarrow> 'x pyval \<Rightarrow> string" where
  "py_str S PNone = ''None''"
| "py_str S (PBool b) = (if b then ''True'' else ''False'')"
| "py_str S (PInt i) = string_of_int i"
| "py_str S (PStr s) = s"
| "py_str S (PObj x) = S x"

text \<open>\<open>s.startswith(p)\<close>.\<close>

definition startswith :: "string \<Rightarrow> string \<Rightarrow> bool" where
  "startswith s p = (take (length p) s = p)"

text \<open>\<open>s.lower()\<close> on the ASCII letters of a class name.\<close>

definition lower_char :: "char \<Rightarrow> char" where
  "lower_char c =
     (let n = (of_char c :: nat) in if 65 \<le> n \<and> n \<le> 90 then char_of (n + 32) else c)"

definition lower :: "string \<Rightarrow> string" where
  "lower s = map lower_char s"

text \<open>\<open>sep.join(xs)\<close>.\<close>

fun join :: "string \<Rightarrow> string list \<Rightarrow> string" where
  "join sep [] = []"
| "join sep [x] = x"
| "join sep (x # y # ys) = x @ sep @ join sep (y # ys)"


section \<open>Entities: \<open>Model\<close>\<close>

text \<open>
  An object of class \<open>Model\<close> or of a subclass. \<open>class_name\<close> is
  \<open>type(self).__name__\<close> and \<open>bases\<close> the names of the other classes of
  \<open>type(self).__mro__\<close>, in that order. \<open>obj_id\<close> is the attribute \<open>id\<close>,
  which \<open>Model.__init__\<close> always sets; \<open>attrs\<close> holds every other attribute of
  \<open>__dict__\<close> set by name (\<open>created\<close>, \<open>name\<close>, the fields of the concrete
  kind, whatever \<open>populate\<close> adds). \<open>query_parameters\<close> is
  \<open>_query_parameters\<close>. \<open>object\<close> is \<open>_object\<close>: absent, the reference a
  domain-scoped entity keeps to its owner (\<open>Inl\<close>), or any other value that was
  assigned to it (\<open>Inr\<close>).
\<close>

type_synonym addr = nat

record 'x entity =
  class_name :: string
  bases :: "string list"
  obj_id :: "'x pyval"
  attrs :: "string \<rightharpoonup> 'x pyval"
  query_parameters :: "(string \<times> 'x pyval) list"
  object :: "(addr + 'x pyval) option"


text \<open>
  \<open>getattr(self, k)\<close> for the name of a data attribute; \<open>None\<close> when the object
  has no such attribute.
\<close>

definition getattr :: "'x entity \<Rightarrow> string \<Rightarrow> 'x pyval option" where
  "getattr e k = (if k = ''id'' then Some (obj_id e) else attrs e k)"

text \<open>
  The assignment \<open>self.k = v\<close> of an attribute that is not a property of the class:
  an entry of \<open>__dict__\<close>.
\<close>

definition assign :: "'x entity \<Rightarrow> string \<Rightarrow> 'x pyval \<Rightarrow> 'x entity" where
  "assign e k v = (if k = ''id'' then e\<lparr>obj_id := v\<rparr> else e\<lparr>attrs := (attrs e)(k \<mapsto> v)\<rparr>)"

text \<open>\<open>isinstance(self, c)\<close> for a class named \<open>c\<close>.\<close>

definition is_a :: "'x entity \<Rightarrow> string \<Rightarrow> bool" where
  "is_a e c = (class_name e = c \<or> c \<in> set (bases e))"

text \<open>
  The properties of \<open>Model\<close> that have no setter: \<open>query_parameters\<close> and
  \<open>callback_identifier\<close>. The subclasses that define \<open>callback_identifier\<close>
  again give it no setter either.
\<close>

definition readonly_property :: "string \<Rightarrow> bool" where
  "readonly_property k = (k = ''query_parameters'' \<or> k = ''callback_identifier'')"

text \<open>
  \<open>setattr(self, k, v)\<close> with a value \<open>v\<close> of a mapping. A property of the class
  comes before \<open>__dict__\<close>: for a property without setter the call raises
  \<open>AttributeError\<close>; for the property \<open>obj\<close> of a \<open>DomainModel\<close> the setter
  runs, assigns \<open>_object\<close> and raises \<open>AttributeError\<close> on reading
  \<open>v.class_\<close>, which no value of a mapping has. Any other name is assigned, also
  the name of a method of the class. The object is returned as the call leaves it.
\<close>

definition setattr :: "'x entity \<Rightarrow> string \<Rightarrow> 'x pyval \<Rightarrow> 'x entity \<times> error option" where
  "setattr e k v =
     (if readonly_property k then (e, Some AttributeError)
      else if k = ''obj'' \<and> is_a e ''DomainModel''
      then (e\<lparr>object := Some (Inr v)\<rparr>, Some AttributeError)
      else (assign e k v, None))"

text \<open>\<open>Model.__init__\<close>, for an object of class \<open>cls\<close> with ancestors \<open>bs\<close>.\<close>

definition Model_init :: "string \<Rightarrow> string list \<Rightarrow> 'x entity" where
  "Model_init cls bs =
     \<lparr>class_name = cls, bases = bs, obj_id = PNone,
      attrs = [''created'' \<mapsto> PNone, ''updated'' \<mapsto> PNone, ''deleted'' \<mapsto> PNone,
                ''name'' \<mapsto> PNone],
      query_parameters = [], object = None\<rparr>"

definition is_new :: "'x entity \<Rightarrow> bool" where
  "is_new e = (obj_id e = PNone)"

text \<open>
  A method call \<open>self.m(...)\<close> looks \<open>m\<close> up on the instance before the class: an
  attribute of the instance named \<open>m\<close>, which \<open>setattr\<close> can store, is found in
  the place of the method, and calling it raises \<open>TypeError\<close>, since no value of
  the model can be called.
\<close>

definition shadowed :: "'x entity \<Rightarrow> string \<Rightarrow> bool" where
  "shadowed e m = (attrs e m \<noteq> None)"

text \<open>The call \<open>self.is_new()\<close>; no class of the sources overrides \<open>is_new\<close>.\<close>

definition call_is_new :: "'x entity \<Rightarrow> error + bool" where
  "call_is_new e = (if shadowed e ''is_new'' then Inl TypeError else Inr (is_new e))"




text \<open>
  The name under which \<open>Model.populate\<close> stores a key: the prefix \<open>id_\<close> is cut,
  \<open>uri\<close> becomes \<open>uri_\<close>, a name that then starts with an underscore is not stored
  (\<open>None\<close>), and \<open>class\<close> becomes \<open>class_\<close>.
\<close>

definition store_key :: "string \<Rightarrow> string option" where
  "store_key key =
     (let k1 = (if startswith key ''id_'' then drop 3 key else key);
          k2 = (if k1 = ''uri'' then ''uri_'' else k1)
      in if \<not> startswith k2 ''_'' then Some (if k2 = ''class'' then k2 @ ''_'' else k2)
         else None)"

text \<open>
  \<open>Model.populate\<close>: the loop over the items of the mapping, in the order in which the
  dict yields them; it stops at the first \<open>setattr\<close> that raises. An empty mapping
  leaves the object as it is. The object is returned as the call leaves it, with the
  exception raised, if any.
\<close>

fun Model_populate ::
  "'x entity \<Rightarrow> (string \<times> 'x pyval) list \<Rightarrow> 'x entity \<times> error option" where
  "Model_populate e [] = (e, None)"
| "Model_populate e ((key, v) # rest) =
     (case store_key key of
        None \<Rightarrow> Model_populate e rest
      | Some k \<Rightarrow>
          (case setattr e k v of
             (e', Some err) \<Rightarrow> (e', Some err)
           | (e', None) \<Rightarrow> Model_populate e' rest))"

text \<open>
  The call \<open>self.populate(attributes)\<close>; no class of the sources overrides
  \<open>populate\<close>.
\<close>

definition call_populate ::
  "'x entity \<Rightarrow> (string \<times> 'x pyval) list \<Rightarrow> 'x entity \<times> error option" where
  "call_populate e attributes =
     (if shadowed e ''populate'' then (e, Some TypeError) else Model_populate e attributes)"



subsection \<open>The operations that end in a transport call\<close>

text \<open>
  The transport is outside the model layer. An operation ends either by raising or by
  handing one request to the transport, whose answer it returns. An upload carries the
  entity, the file, the URI if one is given, and the query parameters.
\<close>

datatype 'x call =
    GetModel "'x entity" "(string \<times> 'x pyval) list"
  | PostModel "'x entity"
  | PutModel "'x entity"
  | DeleteModel "'x entity"
  | UploadFile "'x entity" "'x pyval" "string option" "(string \<times> 'x pyval) list"

datatype 'x outcome = Raised error | Transport "'x call"


text \<open>Each operation returns the object as it is when the operation ends, and the outcome.\<close>

definition Model_fetch :: "'x entity \<Rightarrow> 'x pyval \<Rightarrow> 'x entity \<times> 'x outcome" where
  "Model_fetch e i =
     (if obj_id e = PNone \<and> i = PNone then (e, Raised ValueError)
      else let e' = (if i \<noteq> PNone then e\<lparr>obj_id := i\<rparr> else e)
           in (e', Transport (GetModel e' (query_parameters e'))))"

definition Model_delete :: "'x entity \<Rightarrow> 'x pyval \<Rightarrow> 'x entity \<times> 'x outcome" where
  "Model_delete e i =
     (if obj_id e = PNone \<and> i = PNone then (e, Raised ValueError)
      else let e' = (if i \<noteq> PNone then e\<lparr>obj_id := i\<rparr> else e)
           in (e', Transport (DeleteModel e')))"

definition Model_update ::
  "'x entity \<Rightarrow> 'x pyval \<Rightarrow> (string \<times> 'x pyval) list \<Rightarrow> 'x entity \<times> 'x outcome" where
  "Model_update e i attributes =
     (if obj_id e = PNone \<and> i = PNone then (e, Raised ValueError)
      else let e1 = (if i \<noteq> PNone then e\<lparr>obj_id := i\<rparr> else e)
           in if attributes \<noteq> []
              then (case call_populate e1 attributes of
                      (e2, Some err) \<Rightarrow> (e2, Raised err)
                    | (e2, None) \<Rightarrow> (e2, Transport (PutModel e2)))
              else (e1, Transport (PutModel e1)))"

subsection \<open>The method a call reaches\<close>








subsection \<open>The kinds of \<open>user.py\<close> that the claims name\<close>

text \<open>
  A constructor that ends with \<open>self.populate(attributes)\<close> gives the object unless
  that call raises.
\<close>

definition constructed :: "'x entity \<times> error option \<Rightarrow> error + 'x entity" where
  "constructed r = (case r of (e, Some err) \<Rightarrow> Inl err | (e, None) \<Rightarrow> Inr e)"



definition UserGroup_init ::
  "'x pyval \<Rightarrow> 'x pyval \<Rightarrow> (string \<times> 'x pyval) list \<Rightarrow> error + 'x entity" where
  "UserGroup_init id_user id_group attributes =
     (let e0 = Model_init ''UserGroup'' [''Model'', ''object'']
      in constructed
           (call_populate (e0\<lparr>attrs := (attrs e0)(''user'' \<mapsto> id_user, ''group'' \<mapsto> id_group)\<rparr>)
              attributes))"


definition UserRole_init ::
  "'x pyval \<Rightarrow> 'x pyval \<Rightarrow> (string \<times> 'x pyval) list \<Rightarrow> error + 'x entity" where
  "UserRole_init id_user id_role attributes =
     (let e0 = Model_init ''UserRole'' [''Model'', ''object'']
      in constructed
           (call_populate
              (e0\<lparr>attrs := (attrs e0)(''user'' \<mapsto> id_user, ''role'' \<mapsto> id_role,
                                      ''authority'' \<mapsto> PNone)\<rparr>)
              attributes))"

text \<open>\<open>UserRole.fetch\<close>, of the same shape.\<close>

definition UserRole_fetch :: "'x entity \<Rightarrow> 'x pyval \<Rightarrow> 'x pyval \<Rightarrow> 'x entity \<times> 'x outcome" where
  "UserRole_fetch e id_user id_role =
     (let e1 = e\<lparr>obj_id := PInt (- 1)\<rparr> in
      case getattr e1 ''user'' of
        None \<Rightarrow> (e1, Raised AttributeError)
      | Some u \<Rightarrow>
          if u = PNone \<and> id_user = PNone then (e1, Raised ValueError)
          else (case getattr e1 ''role'' of
                  None \<Rightarrow> (e1, Raised AttributeError)
                | Some r \<Rightarrow>
                    if r = PNone \<and> id_role = PNone then (e1, Raised ValueError)
                    else let e2 = (if id_user \<noteq> PNone then assign e1 ''user'' id_user else e1);
                             e3 = (if id_role \<noteq> PNone then assign e2 ''role'' id_role else e2)
                         in (e3, Transport (GetModel e3 (query_parameters e3)))))"

section \<open>Domain-scoped entities: \<open>DomainModel\<close>\<close>

text \<open>
  The owner of a domain-scoped entity is another object, held by reference. The store
  gives the present state of every object by its address; an owner that changes later
  is a store that differs at the owner's address.
\<close>

type_synonym 'x store = "addr \<Rightarrow> 'x entity"

text \<open>
  The setter of the property \<open>obj\<close>, called with the owner: keeps the reference and
  copies the owner's \<open>class_\<close> and \<open>id\<close> as they are now. An owner with no
  attribute \<open>class_\<close> makes the read raise.
\<close>

definition DomainModel_obj_set :: "'x store \<Rightarrow> 'x entity \<Rightarrow> addr \<Rightarrow> error + 'x entity" where
  "DomainModel_obj_set h e a =
     (let e1 = e\<lparr>object := Some (Inl a)\<rparr> in
      case getattr (h a) ''class_'' of
        None \<Rightarrow> Inl AttributeError
      | Some c \<Rightarrow>
          Inr (assign (assign e1 ''domainClassName'' c) ''domainIdent'' (obj_id (h a))))"

text \<open>
  \<open>DomainModel.__init__\<close>, for an object of class \<open>cls\<close> and the owner at address
  \<open>a\<close>.
\<close>

definition DomainModel_init :: "'x store \<Rightarrow> string \<Rightarrow> string list \<Rightarrow> addr \<Rightarrow> error + 'x entity" where
  "DomainModel_init h cls bs a =
     (let e0 = Model_init cls bs in
      case call_is_new (h a) of
        Inl err \<Rightarrow> Inl err
      | Inr new \<Rightarrow>
          if new then Inl ValueError
          else let e1 = assign (assign e0 ''domainClassName'' PNone) ''domainIdent'' PNone
               in DomainModel_obj_set h e1 a)"


section \<open>Collections\<close>

text \<open>
  The class a collection holds in \<open>_model\<close>: its name, the names of its ancestors, and
  its constructor, called with no argument (\<open>self._model()\<close>) or with an owner
  (\<open>self._model(self._object)\<close>).
\<close>

record 'x model_class =
  mc_name :: string
  mc_bases :: "string list"
  mc_new :: "error + 'x entity"
  mc_new_owned :: "'x store \<Rightarrow> addr \<Rightarrow> error + 'x entity"

text \<open>A value offered to a collection: an object of the model layer or any other value.\<close>

datatype 'x pyobject = Obj "'x entity" | Val "'x pyval"

text \<open>\<open>isinstance(value, self._model)\<close>.\<close>

fun isinstance :: "'x pyobject \<Rightarrow> 'x model_class \<Rightarrow> bool" where
  "isinstance (Obj e) m = (class_name e = mc_name m \<or> mc_name m \<in> set (bases e))"
| "isinstance (Val v) m = False"

text \<open>
  A collection. \<open>coll_type\<close> is \<open>type(self).__name__\<close>; \<open>maximum\<close> is the
  attribute \<open>max\<close> (\<open>None\<close> when unset). The last three fields are those a
  \<open>DomainCollection\<close> adds.
\<close>

record 'x collection =
  coll_type :: string
  model :: "'x model_class"
  data :: "'x entity list"
  allowed_filters :: "string option list"
  filters :: "(string \<times> 'x pyval) list"
  total :: int
  total_pages :: "int option"
  maximum :: "int option"
  offset :: int
  coll_object :: "addr option"
  domainClassName :: "'x pyval"
  domainIdent :: "'x pyval"

definition Collection_init ::
  "string \<Rightarrow> 'x model_class \<Rightarrow> (string \<times> 'x pyval) list option \<Rightarrow> int option \<Rightarrow> int \<Rightarrow>
   'x collection" where
  "Collection_init ty m fs mx off =
     \<lparr>coll_type = ty, model = m, data = [], allowed_filters = [],
      filters = (case fs of None \<Rightarrow> [] | Some f \<Rightarrow> f),
      total = 0, total_pages = None, maximum = mx, offset = off,
      coll_object = None, domainClassName = PNone, domainIdent = PNone\<rparr>"

text \<open>
  The page envelope: a dict that may or may not have the keys \<open>size\<close> and
  \<open>collection\<close>.
\<close>

record 'x envelope =
  env_size :: "int option"
  env_collection :: "(string \<times> 'x pyval) list list option"

text \<open>
  The list comprehension of \<open>populate\<close>: for each instance in turn a new entity is
  constructed and populated; the first exception ends it.
\<close>

fun build_data ::
  "error + 'x entity \<Rightarrow> (string \<times> 'x pyval) list list \<Rightarrow> error + 'x entity list" where
  "build_data new [] = Inr []"
| "build_data new (inst # insts) =
     (case new of
        Inl err \<Rightarrow> Inl err
      | Inr e \<Rightarrow>
          (case call_populate e inst of
             (e', Some err) \<Rightarrow> Inl err
           | (e', None) \<Rightarrow>
               (case build_data new insts of
                  Inl err \<Rightarrow> Inl err
                | Inr es \<Rightarrow> Inr (e' # es))))"

text \<open>
  \<open>Collection.populate\<close>. The collection is returned as it is when the call ends,
  with the exception raised, if any.
\<close>

definition Collection_populate ::
  "'x collection \<Rightarrow> 'x envelope \<Rightarrow> bool \<Rightarrow> 'x collection \<times> error option" where
  "Collection_populate c attributes append_mode =
     (case env_collection attributes of
        None \<Rightarrow> (c, Some KeyError)
      | Some insts \<Rightarrow>
          (case build_data (mc_new (model c)) insts of
             Inl err \<Rightarrow> (c, Some err)
           | Inr d \<Rightarrow>
               let c1 = (if append_mode then c\<lparr>data := data c @ d\<rparr> else c\<lparr>data := d\<rparr>) in
               (case env_size attributes of
                  None \<Rightarrow> (c1, Some KeyError)
                | Some t \<Rightarrow>
                    let c2 = c1\<lparr>total := t\<rparr> in
                    (case maximum c2 of
                       None \<Rightarrow> (c2\<lparr>total_pages := Some 1\<rparr>, None)
                     | Some m \<Rightarrow>
                         if m = 0 then (c2\<lparr>total_pages := Some 1\<rparr>, None)
                         else (c2\<lparr>total_pages := Some (total c2 div m)\<rparr>, None)))))"

text \<open>
  The property \<open>callback_identifier\<close> of a collection: the name of the model's
  class in lower case, unless the class of the collection defines it itself, as
  \<open>UserGroupCollection\<close>, \<open>UserRoleCollection\<close> and
  \<open>TagDomainAssociationCollection\<close> do with a constant.
\<close>

definition Collection_callback_identifier :: "'x collection \<Rightarrow> string" where
  "Collection_callback_identifier c =
     (if coll_type c = ''UserGroupCollection'' then ''group''
      else if coll_type c = ''UserRoleCollection'' then ''role''
      else if coll_type c = ''TagDomainAssociationCollection'' then ''tag_domain_association''
      else lower (mc_name (model c)))"

text \<open>\<open>Collection.uri\<close>.\<close>

definition Collection_uri :: "('x \<Rightarrow> string) \<Rightarrow> 'x collection \<Rightarrow> bool \<Rightarrow> error + string" where
  "Collection_uri S c without_filters =
     (if \<not> without_filters then
        if length (filters c) > 1 then Inl ValueError
        else let uri = join ''/'' (map (\<lambda>(key, v). key @ ''/'' @ py_str S v)
                                    (filter (\<lambda>(key, v). Some key \<in> set (allowed_filters c))
                                       (filters c)));
                 uri' = (if length uri > 0 then uri @ ''/'' else uri)
             in Inr (uri' @ Collection_callback_identifier c @ ''.json'')
      else Inr (Collection_callback_identifier c @ ''.json''))"

subsection \<open>The sequence operations\<close>

text \<open>
  \<open>__setitem__\<close> with an integer index: the check of the kind, then the list
  assignment, which counts a negative index from the end and raises out of range.
\<close>

definition Collection_setitem ::
  "'x collection \<Rightarrow> int \<Rightarrow> 'x pyobject \<Rightarrow> 'x collection \<times> error option" where
  "Collection_setitem c index v =
     (if \<not> isinstance v (model c) then (c, Some TypeError)
      else case v of
        Val x \<Rightarrow> (c, Some TypeError)
      | Obj e \<Rightarrow>
          let n = int (length (data c)); j = (if index < 0 then index + n else index)
          in if 0 \<le> j \<and> j < n then (c\<lparr>data := (data c)[nat j := e]\<rparr>, None)
             else (c, Some IndexError))"

text \<open>\<open>insert\<close>: the check, then \<open>list.insert\<close>, which clamps the index.\<close>

definition Collection_insert ::
  "'x collection \<Rightarrow> int \<Rightarrow> 'x pyobject \<Rightarrow> 'x collection \<times> error option" where
  "Collection_insert c index v =
     (if \<not> isinstance v (model c) then (c, Some TypeError)
      else case v of
        Val x \<Rightarrow> (c, Some TypeError)
      | Obj e \<Rightarrow>
          let n = int (length (data c));
              j = (if index < 0 then max 0 (index + n) else min index n)
          in (c\<lparr>data := take (nat j) (data c) @ [e] @ drop (nat j) (data c)\<rparr>, None))"

definition Collection_iadd ::
  "'x collection \<Rightarrow> 'x collection \<Rightarrow> 'x collection \<times> error option" where
  "Collection_iadd c other =
     (if coll_type c \<noteq> coll_type other then (c, Some TypeError)
      else (c\<lparr>data := data c @ data other\<rparr>, None))"

text \<open>
  \<open>__add__\<close> works on a shallow copy with a fresh list; it returns \<open>self\<close> as it
  is afterwards, and the new collection or the exception.
\<close>

definition Collection_add ::
  "'x collection \<Rightarrow> 'x collection \<Rightarrow> 'x collection \<times> (error + 'x collection)" where
  "Collection_add c other =
     (if coll_type c \<noteq> coll_type other then (c, Inl TypeError)
      else let collection = c\<lparr>data := []\<rparr> in
           case Collection_iadd collection c of
             (c1, Some err) \<Rightarrow> (c, Inl err)
           | (c1, None) \<Rightarrow>
               (case Collection_iadd c1 other of
                  (c2, Some err) \<Rightarrow> (c, Inl err)
                | (c2, None) \<Rightarrow> (c, Inr c2)))"

text \<open>\<open>MutableSequence.extend\<close>: \<open>append\<close> each value, that is \<open>insert\<close> at the end.\<close>

fun extend :: "'x collection \<Rightarrow> 'x pyobject list \<Rightarrow> 'x collection \<times> error option" where
  "extend c [] = (c, None)"
| "extend c (v # vs) =
     (case Collection_insert c (int (length (data c))) v of
        (c1, Some err) \<Rightarrow> (c1, Some err)
      | (c1, None) \<Rightarrow> extend c1 vs)"

subsection \<open>Saving a collection\<close>

text \<open>
  The transport's bulk create returns a bool. Its answer is not a function of the
  collection alone, so the model gives it the occasion of the call as well: the index
  of the chunk (0 for the single call of an unchunked save).
\<close>

type_synonym 'x post_collection = "nat \<Rightarrow> 'x collection \<Rightarrow> bool"

text \<open>
  \<open>Collection._upload_fn\<close> on a chunk, which is a list: a new collection of the same
  class and model, extended by the chunk, is posted.
\<close>

definition upload_fn ::
  "'x post_collection \<Rightarrow> 'x collection \<Rightarrow> nat \<Rightarrow> 'x entity list \<Rightarrow> error + bool" where
  "upload_fn post c k chunk =
     (let tmp = Collection_init (coll_type c) (model c) None (Some 0) 0 in
      case extend tmp (map Obj chunk) of
        (t, Some err) \<Rightarrow> Inl err
      | (t, None) \<Rightarrow> Inr (post k t))"

text \<open>\<open>xs[start:stop]\<close> for indices that are not negative.\<close>

definition slice :: "'a list \<Rightarrow> nat \<Rightarrow> nat \<Rightarrow> 'a list" where
  "slice xs start stop = take (stop - start) (drop start xs)"

text \<open>
  Modelled from the spec: the index ranges of the chunks that \<open>generic_chunk_parallel\<close>
  of \<open>_utilities/parallel.py\<close> forms; that file is not among the sources. Section 4.5
  of the specification: a sequence of length \<open>n\<close> is partitioned into ordered,
  non-overlapping contiguous chunks of the chunk size, the last one possibly shorter.
\<close>

definition chunk_ranges :: "nat \<Rightarrow> nat \<Rightarrow> (nat \<times> nat) list" where
  "chunk_ranges n sz =
     map (\<lambda>k. (k * sz, min (k * sz + sz) n)) [0..<(n + sz - 1) div sz]"

text \<open>
  Modelled from the spec: \<open>generic_chunk_parallel\<close> of \<open>_utilities/parallel.py\<close>,
  which is not among the sources. Section 4.5 of the specification: each chunk goes to
  the worker function; the result has, for every chunk and in chunk order, its index
  range paired with the worker's success flag; an exception of the worker counts as a
  failed chunk. The number of workers bounds how many chunks are in flight and has no
  part in the result. The specification describes no chunk for a chunk size that is
  not positive, and the model forms none there.
\<close>

definition generic_chunk_parallel ::
  "'a list \<Rightarrow> (nat \<Rightarrow> 'a list \<Rightarrow> error + bool) \<Rightarrow> int \<Rightarrow> int \<Rightarrow> ((nat \<times> nat) \<times> bool) list" where
  "generic_chunk_parallel xs worker_fn chunk_size n_workers =
     (if chunk_size \<le> 0 then []
      else map (\<lambda>(k, (start, stop)).
                  ((start, stop),
                   (case worker_fn k (slice xs start stop) of Inl err \<Rightarrow> False | Inr b \<Rightarrow> b)))
             (enumerate 0 (chunk_ranges (length xs) (nat chunk_size))))"

text \<open>The argument \<open>chunk\<close> of \<open>save\<close>: \<open>None\<close>, an integer, or anything else.\<close>

datatype chunk_arg = ChunkNone | ChunkInt int | ChunkOther

datatype 'a save_error =
    SaveRaised error
  | CollectionPartialUploadException (created: "'a list") (failed: "'a list")

text \<open>The loop of \<open>save\<close> over the results, with its two accumulators.\<close>

fun collect ::
  "'a list \<Rightarrow> ((nat \<times> nat) \<times> bool) list \<Rightarrow> 'a list \<Rightarrow> 'a list \<Rightarrow> 'a list \<times> 'a list" where
  "collect xs [] added fails = (added, fails)"
| "collect xs (((start, stop), success) # results) added fails =
     (if success then collect xs results (added @ slice xs start stop) fails
      else collect xs results added (fails @ slice xs start stop))"

definition Collection_save ::
  "'x post_collection \<Rightarrow> 'x collection \<Rightarrow> chunk_arg \<Rightarrow> int \<Rightarrow> 'x entity save_error + bool" where
  "Collection_save post c chunk n_workers =
     (case chunk of
        ChunkNone \<Rightarrow> Inr (post 0 c)
      | ChunkInt sz \<Rightarrow>
          let results = generic_chunk_parallel (data c) (upload_fn post c) sz n_workers;
              (added, fails) = collect (data c) results [] []
          in if length added \<noteq> length (data c)
             then Inl (CollectionPartialUploadException added fails)
             else Inr True
      | ChunkOther \<Rightarrow> Inl (SaveRaised ValueError))"

section \<open>Domain-scoped collections: \<open>DomainCollection\<close>\<close>

text \<open>The setter of \<open>_obj\<close>.\<close>

definition DomainCollection_obj_set ::
  "'x store \<Rightarrow> 'x collection \<Rightarrow> addr \<Rightarrow> error + 'x collection" where
  "DomainCollection_obj_set h c a =
     (let c1 = c\<lparr>coll_object := Some a\<rparr> in
      case getattr (h a) ''class_'' of
        None \<Rightarrow> Inl AttributeError
      | Some cn \<Rightarrow> Inr (c1\<lparr>domainClassName := cn, domainIdent := obj_id (h a)\<rparr>))"

definition DomainCollection_init ::
  "'x store \<Rightarrow> string \<Rightarrow> 'x model_class \<Rightarrow> addr \<Rightarrow> (string \<times> 'x pyval) list option \<Rightarrow>
   int option \<Rightarrow> int \<Rightarrow> error + 'x collection" where
  "DomainCollection_init h ty m a fs mx off =
     (let c0 = Collection_init ty m fs mx off in
      case call_is_new (h a) of
        Inl err \<Rightarrow> Inl err
      | Inr new \<Rightarrow>
          if new then Inl ValueError
          else DomainCollection_obj_set h
                 (c0\<lparr>domainClassName := PNone, domainIdent := PNone\<rparr>) a)"


text \<open>
  \<open>DomainCollection.populate\<close>: each element is built with the owner, read through
  \<open>self._object\<close>; nothing but \<open>_data\<close> is assigned.
\<close>

definition DomainCollection_populate ::
  "'x store \<Rightarrow> 'x collection \<Rightarrow> 'x envelope \<Rightarrow> bool \<Rightarrow> 'x collection \<times> error option" where
  "DomainCollection_populate h c attributes append_mode =
     (case env_collection attributes of
        None \<Rightarrow> (c, Some KeyError)
      | Some insts \<Rightarrow>
          (case coll_object c of
             None \<Rightarrow> (c, Some AttributeError)
           | Some a \<Rightarrow>
               (case build_data (mc_new_owned (model c) h a) insts of
                  Inl err \<Rightarrow> (c, Some err)
                | Inr d \<Rightarrow>
                    if append_mode then (c\<lparr>data := data c @ d\<rparr>, None)
                    else (c\<lparr>data := d\<rparr>, None))))"

section \<open>Constructors and objects used as examples\<close>

text \<open>\<open>Term.__init__\<close> of \<open>ontology.py\<close>.\<close>

definition Term_init ::
  "'x pyval \<Rightarrow> 'x pyval \<Rightarrow> 'x pyval \<Rightarrow> 'x pyval \<Rightarrow> (string \<times> 'x pyval) list \<Rightarrow>
   error + 'x entity" where
  "Term_init name id_ontology color id_parent attributes =
     (let e0 = Model_init ''Term'' [''Model'', ''object'']
      in constructed
           (call_populate
              (e0\<lparr>attrs := (attrs e0)(''name'' \<mapsto> name, ''ontology'' \<mapsto> id_ontology,
                                      ''parent'' \<mapsto> id_parent, ''color'' \<mapsto> color)\<rparr>)
              attributes))"

text \<open>\<open>TagDomainAssociation.__init__\<close> of \<open>property.py\<close>.\<close>

definition TagDomainAssociation_init ::
  "'x store \<Rightarrow> addr \<Rightarrow> 'x pyval \<Rightarrow> (string \<times> 'x pyval) list \<Rightarrow> error + 'x entity" where
  "TagDomainAssociation_init h a tag attributes =
     (case DomainModel_init h ''TagDomainAssociation'' [''DomainModel'', ''Model'', ''object''] a of
        Inl err \<Rightarrow> Inl err
      | Inr e \<Rightarrow> constructed (call_populate (assign e ''tag'' tag) attributes))"

text \<open>
  The two classes as a collection holds them; a collection of terms filtered by a
  project; the roles of the user 5; an entity of class \<open>Project\<close> populated with
  the id 5 and the class discriminator of the server, and a store in which it is the
  owner; an entity of class \<open>Project\<close> as \<open>Model.__init__\<close> leaves it; the
  tag associations of the project; and a collection of 47 terms with the ids 0 to 46.
\<close>

abbreviation (input) Term_class :: "addr model_class" where
  "Term_class \<equiv>
     \<lparr>mc_name = ''Term'', mc_bases = [''Model'', ''object''],
      mc_new = Term_init PNone PNone PNone PNone [],
      mc_new_owned = (\<lambda>h a. Term_init (PObj a) PNone PNone PNone [])\<rparr>"

abbreviation (input) TagDomainAssociation_class :: "addr model_class" where
  "TagDomainAssociation_class \<equiv>
     \<lparr>mc_name = ''TagDomainAssociation'', mc_bases = [''DomainModel'', ''Model'', ''object''],
      mc_new = Inl TypeError,
      mc_new_owned = (\<lambda>h a. TagDomainAssociation_init h a PNone [])\<rparr>"

abbreviation (input) term_collection :: "addr collection" where
  "term_collection \<equiv>
     (Collection_init ''TermCollection'' Term_class (Some [(''project'', PInt 5)]) (Some 10) 0)
       \<lparr>allowed_filters := [None, Some ''project'', Some ''ontology'', Some ''annotation'']\<rparr>"

abbreviation (input) user_roles :: "addr collection" where
  "user_roles \<equiv>
     (Collection_init ''UserRoleCollection''
        \<lparr>mc_name = ''UserRole'', mc_bases = [''Model'', ''object''],
         mc_new = UserRole_init PNone PNone [],
         mc_new_owned = (\<lambda>h a. UserRole_init (PObj a) PNone [])\<rparr>
        (Some [(''user'', PInt 5)]) (Some 0) 0)
       \<lparr>allowed_filters := [Some ''user'']\<rparr>"

abbreviation (input) project5 :: "addr entity" where
  "project5 \<equiv>
     fst (Model_populate (Model_init ''Project'' [''Model'', ''object''])
            [(''id'', PInt 5), (''class'', PStr ''be.cytomine.project.Project'')])"

abbreviation (input) store5 :: "addr store" where
  "store5 \<equiv> (\<lambda>a. project5)"


abbreviation (input) tag_links :: "addr collection" where
  "tag_links \<equiv>
     (Collection_init ''TagDomainAssociationCollection'' TagDomainAssociation_class None
        (Some 10) 0)
       \<lparr>coll_object := Some 0, domainClassName := PStr ''be.cytomine.project.Project'',
        domainIdent := PInt 5\<rparr>"

abbreviation (input) term_nr :: "nat \<Rightarrow> addr entity" where
  "term_nr i \<equiv> projr (Term_init PNone PNone PNone PNone [(''id'', PInt (int i))])"

abbreviation (input) terms47 :: "addr collection" where
  "terms47 \<equiv>
     (Collection_init ''TermCollection'' Term_class None (Some 0) 0)
       \<lparr>data := map term_nr [0..<47]\<rparr>"

section \<open>Identity and saving\<close>









section \<open>From a mapping to JSON and back\<close>














section \<open>Which operations assign \<open>id\<close>\<close>











section \<open>Validation errors and the state they leave\<close>

lemma setattr_error: "snd (setattr e k v) \<noteq> Some ValueError"
  by (simp add: setattr_def)

lemma populate_error: "snd (Model_populate e attributes) \<noteq> Some ValueError"
proof (induction attributes arbitrary: e)
  case Nil
  then show ?case by simp
next
  case (Cons p rest)
  obtain key0 v0 where p: "p = (key0, v0)" by (cases p)
  show ?case
  proof (cases "store_key key0")
    case None
    then show ?thesis using Cons.IH p by simp
  next
    case (Some k0)
    obtain e' r where s: "setattr e k0 v0 = (e', r)" by (cases "setattr e k0 v0")
    with setattr_error [of e k0 v0] have "r \<noteq> Some ValueError" by simp
    then show ?thesis using Cons.IH [of e'] p Some s by (cases r) simp_all
  qed
qed

text \<open>
  The checks of \<open>Model.fetch\<close>, \<open>Model.delete\<close> and \<open>Model.update\<close> come
  before any assignment: when they raise \<open>ValueError\<close>, the entity is as it was.
\<close>

lemma Model_validation_keeps_state:
  "(snd (Model_fetch e i) = Raised ValueError \<longrightarrow> fst (Model_fetch e i) = e) \<and>
   (snd (Model_delete e i) = Raised ValueError \<longrightarrow> fst (Model_delete e i) = e) \<and>
   (snd (Model_update e i attributes) = Raised ValueError \<longrightarrow>
      fst (Model_update e i attributes) = e)"
proof -
  obtain e2 r where c: "call_populate (if i \<noteq> PNone then e\<lparr>obj_id := i\<rparr> else e) attributes
                          = (e2, r)"
    by (cases "call_populate (if i \<noteq> PNone then e\<lparr>obj_id := i\<rparr> else e) attributes")
  have "r \<noteq> Some ValueError"
    using c populate_error [of "if i \<noteq> PNone then e\<lparr>obj_id := i\<rparr> else e" attributes]
    by (auto simp: call_populate_def split: if_splits)
  then show ?thesis
    using c by (cases r) (auto simp: Model_fetch_def Model_delete_def Model_update_def Let_def)
qed

text \<open>
  C5 fails on \<open>UserRole.fetch\<close>. On a user-role built with no user and no role,
  \<open>fetch()\<close> raises the \<open>ValueError\<close> before any transport call, but the entity is
  no longer as it was: its \<open>id\<close>, \<open>None\<close> before the call, is \<open>-1\<close> after it.
\<close>

theorem UserRole_fetch_sets_id_before_raising:
  "map_sum id obj_id (UserRole_init PNone PNone [] :: error + unit entity) = Inr PNone \<and>
   snd (UserRole_fetch (projr (UserRole_init PNone PNone [] :: error + unit entity)) PNone PNone)
     = Raised ValueError \<and>
   obj_id (fst (UserRole_fetch (projr (UserRole_init PNone PNone [] :: error + unit entity))
                  PNone PNone))
     = PInt (- 1) \<and>
   fst (UserRole_fetch (projr (UserRole_init PNone PNone [] :: error + unit entity)) PNone PNone)
     \<noteq> projr (UserRole_init PNone PNone [])"
  by (simp add: UserRole_fetch_def UserRole_init_def constructed_def call_populate_def
      shadowed_def Model_init_def getattr_def Let_def)

section \<open>The snapshot of the owner\<close>










section \<open>Pages\<close>

text \<open>
  C3. \<open>Collection.populate\<close> on an envelope with \<open>size\<close> \<open>t\<close>, when the
  elements can be built: no exception, \<open>_total\<close> becomes \<open>t\<close>, and
  \<open>_total_pages\<close> becomes 1 when \<open>max\<close> is \<open>None\<close> or 0 and the floor division
  \<open>t // max\<close> otherwise; for 25 and 10 that is 2.
\<close>

theorem Collection_populate_total_pages:
  "build_data (mc_new (model c)) insts = Inr d \<longrightarrow>
     snd (Collection_populate c \<lparr>env_size = Some t, env_collection = Some insts\<rparr> am) = None \<and>
     total (fst (Collection_populate c \<lparr>env_size = Some t, env_collection = Some insts\<rparr> am)) = t \<and>
     total_pages (fst (Collection_populate c \<lparr>env_size = Some t, env_collection = Some insts\<rparr> am))
       = Some (case maximum c of None \<Rightarrow> 1 | Some m \<Rightarrow> if m = 0 then 1 else t div m) \<and>
     (maximum c = Some 10 \<longrightarrow>
        total_pages (fst (Collection_populate c \<lparr>env_size = Some 25, env_collection = Some insts\<rparr> am))
          = Some 2)"
  by (simp add: Collection_populate_def Let_def split: option.splits)

text \<open>
  The statement at a collection of terms with \<open>max = 10\<close> and an envelope of size 25.
\<close>

theorem Collection_populate_total_pages_witness:
  "total (fst (Collection_populate term_collection
            \<lparr>env_size = Some 25, env_collection = Some [[(''id'', PInt 1)], [(''id'', PInt 2)]]\<rparr>
            False)) = 25 \<and>
   total_pages (fst (Collection_populate term_collection
            \<lparr>env_size = Some 25, env_collection = Some [[(''id'', PInt 1)], [(''id'', PInt 2)]]\<rparr>
            False)) = Some 2"
proof -
  let ?insts = "[[(''id'', PInt 1)], [(''id'', PInt 2)]] :: (string \<times> addr pyval) list list"
  have b: "build_data (mc_new (model term_collection)) ?insts
             = Inr (projr (build_data (mc_new (model term_collection)) ?insts))"
    by (simp add: Collection_init_def Term_init_def constructed_def call_populate_def
        shadowed_def Model_init_def store_key_def startswith_def setattr_def
        readonly_property_def assign_def Let_def)
  have m: "maximum term_collection = Some 10" by (simp add: Collection_init_def)
  note th = Collection_populate_total_pages
              [of term_collection ?insts "projr (build_data (mc_new (model term_collection)) ?insts)"
                  25 False, THEN mp, OF b]
  have "total (fst (Collection_populate term_collection
            \<lparr>env_size = Some 25, env_collection = Some ?insts\<rparr> False)) = 25"
    by (rule th [THEN conjunct2, THEN conjunct1])
  moreover have "total_pages (fst (Collection_populate term_collection
            \<lparr>env_size = Some 25, env_collection = Some ?insts\<rparr> False)) = Some 2"
    by (rule th [THEN conjunct2, THEN conjunct2, THEN conjunct2, THEN mp, OF m])
  ultimately show ?thesis by (intro conjI)
qed

lemma DomainCollection_populate_frame:
  "fst (DomainCollection_populate h c env am)
     = c\<lparr>data := data (fst (DomainCollection_populate h c env am))\<rparr>"
  by (simp add: DomainCollection_populate_def split: option.splits sum.splits)

lemma DomainCollection_populate_pages:
  "total_pages (fst (DomainCollection_populate h c env am)) = total_pages c \<and>
   total (fst (DomainCollection_populate h c env am)) = total c"
  by (simp add: DomainCollection_populate_def split: option.splits sum.splits)

lemma foldl_populate_pages:
  "total_pages (foldl (\<lambda>c (h, env, am). fst (DomainCollection_populate h c env am)) c pages)
     = total_pages c \<and>
   total (foldl (\<lambda>c (h, env, am). fst (DomainCollection_populate h c env am)) c pages)
     = total c"
  by (induction pages arbitrary: c) (simp_all add: DomainCollection_populate_pages split: prod.splits)

lemma DomainCollection_init_pages:
  "DomainCollection_init h ty m a fs mx off = Inr c \<Longrightarrow> total_pages c = None \<and> total c = 0"
  by (auto simp: DomainCollection_init_def DomainCollection_obj_set_def Collection_init_def Let_def
      split: if_splits option.splits sum.splits)

text \<open>
  C10. \<open>DomainCollection.populate\<close> changes nothing but \<open>_data\<close>: \<open>_total\<close>
  and \<open>_total_pages\<close> are as before, after one call and after any sequence of calls;
  from the constructor on, \<open>_total_pages\<close> therefore stays \<open>None\<close>.
\<close>

theorem DomainCollection_populate_keeps_pages:
  "fst (DomainCollection_populate h c env am)
     = c\<lparr>data := data (fst (DomainCollection_populate h c env am))\<rparr> \<and>
   total (fst (DomainCollection_populate h c env am)) = total c \<and>
   total_pages (fst (DomainCollection_populate h c env am)) = total_pages c \<and>
   total_pages (foldl (\<lambda>c (h, env, am). fst (DomainCollection_populate h c env am)) c pages)
     = total_pages c \<and>
   (DomainCollection_init h0 ty m a fs mx off = Inr c \<longrightarrow>
      total_pages (foldl (\<lambda>c (h, env, am). fst (DomainCollection_populate h c env am)) c pages)
        = None)"
  using DomainCollection_populate_frame [of h c env am]
    DomainCollection_populate_pages [of h c env am] foldl_populate_pages [of c pages]
    DomainCollection_init_pages [of h0 ty m a fs mx off c]
  by simp

text \<open>
  The statement at a collection of tag associations of a project with id 5, populated in
  append mode from an envelope of size 25 with two elements.
\<close>

theorem DomainCollection_populate_keeps_pages_witness:
  "DomainCollection_init store5 ''TagDomainAssociationCollection'' TagDomainAssociation_class 0
     None (Some 10) 0 = Inr tag_links \<and>
   snd (DomainCollection_populate store5 tag_links
          \<lparr>env_size = Some 25, env_collection = Some [[(''id'', PInt 1)], [(''id'', PInt 2)]]\<rparr>
          True) = None \<and>
   length (data (fst (DomainCollection_populate store5 tag_links
          \<lparr>env_size = Some 25, env_collection = Some [[(''id'', PInt 1)], [(''id'', PInt 2)]]\<rparr>
          True))) = 2 \<and>
   total (fst (DomainCollection_populate store5 tag_links
          \<lparr>env_size = Some 25, env_collection = Some [[(''id'', PInt 1)], [(''id'', PInt 2)]]\<rparr>
          True)) = 0 \<and>
   total_pages (fst (DomainCollection_populate store5 tag_links
          \<lparr>env_size = Some 25, env_collection = Some [[(''id'', PInt 1)], [(''id'', PInt 2)]]\<rparr>
          True)) = None"
proof -
  have i: "DomainCollection_init store5 ''TagDomainAssociationCollection''
             TagDomainAssociation_class 0 None (Some 10) 0 = Inr tag_links"
    by (simp add: DomainCollection_init_def DomainCollection_obj_set_def Collection_init_def
        call_is_new_def shadowed_def is_new_def getattr_def Model_init_def store_key_def
        startswith_def setattr_def readonly_property_def assign_def)
  have p: "snd (DomainCollection_populate store5 tag_links
          \<lparr>env_size = Some 25, env_collection = Some [[(''id'', PInt 1)], [(''id'', PInt 2)]]\<rparr>
          True) = None \<and>
     length (data (fst (DomainCollection_populate store5 tag_links
          \<lparr>env_size = Some 25, env_collection = Some [[(''id'', PInt 1)], [(''id'', PInt 2)]]\<rparr>
          True))) = 2"
    by (simp add: DomainCollection_populate_def Collection_init_def TagDomainAssociation_init_def
        DomainModel_init_def DomainModel_obj_set_def constructed_def call_populate_def
        call_is_new_def shadowed_def is_new_def getattr_def Model_init_def store_key_def
        startswith_def setattr_def readonly_property_def is_a_def assign_def)
  have t: "total tag_links = 0 \<and> total_pages tag_links = None"
    by (simp add: Collection_init_def)
  show ?thesis
    using i p t
      DomainCollection_populate_keeps_pages
        [of store5 tag_links
            "\<lparr>env_size = Some 25, env_collection = Some [[(''id'', PInt 1)], [(''id'', PInt 2)]]\<rparr>"
            True "[]" store5 "''TagDomainAssociationCollection''" TagDomainAssociation_class 0
            None "Some 10" 0]
    by simp
qed

section \<open>The URI of a collection\<close>

text \<open>
  C6. \<open>Collection.uri\<close> with filters requested raises \<open>ValueError\<close> when more than
  one filter is set; with exactly one filter, whose key is allowed, it is
  \<open>key/value/kind.json\<close>; with at most one filter and none that is allowed it is
  \<open>kind.json\<close>; and with \<open>without_filters\<close> it is \<open>kind.json\<close> whatever the
  filters.
\<close>

theorem Collection_uri_filters:
  "(1 < length (filters c) \<longrightarrow> Collection_uri S c False = Inl ValueError) \<and>
   (filters c = [(k, v)] \<and> Some k \<in> set (allowed_filters c) \<longrightarrow>
      Collection_uri S c False
        = Inr (k @ ''/'' @ py_str S v @ ''/'' @ Collection_callback_identifier c @ ''.json'')) \<and>
   (length (filters c) \<le> 1 \<and> (\<forall>(k', v') \<in> set (filters c). Some k' \<notin> set (allowed_filters c)) \<longrightarrow>
      Collection_uri S c False = Inr (Collection_callback_identifier c @ ''.json'')) \<and>
   Collection_uri S c True = Inr (Collection_callback_identifier c @ ''.json'')"
proof (intro conjI impI)
  assume "1 < length (filters c)"
  then show "Collection_uri S c False = Inl ValueError"
    by (simp add: Collection_uri_def)
next
  assume "filters c = [(k, v)] \<and> Some k \<in> set (allowed_filters c)"
  then show "Collection_uri S c False
        = Inr (k @ ''/'' @ py_str S v @ ''/'' @ Collection_callback_identifier c @ ''.json'')"
    by (simp add: Collection_uri_def)
next
  assume a: "length (filters c) \<le> 1 \<and> (\<forall>(k', v') \<in> set (filters c). Some k' \<notin> set (allowed_filters c))"
  then have "filter (\<lambda>(key, v). Some key \<in> set (allowed_filters c)) (filters c) = []"
    by (auto simp: filter_empty_conv)
  with a show "Collection_uri S c False = Inr (Collection_callback_identifier c @ ''.json'')"
    by (simp add: Collection_uri_def)
next
  show "Collection_uri S c True = Inr (Collection_callback_identifier c @ ''.json'')"
    by (simp add: Collection_uri_def)
qed

text \<open>
  The statement at a collection of terms: filtered by a project, without filters, with
  a filter that is not allowed, and with two filters; and at the roles of a user, a
  collection whose class defines the callback identifier itself.
\<close>

theorem Collection_uri_filters_witness:
  "Collection_uri (\<lambda>x. []) term_collection False = Inr ''project/5/term.json'' \<and>
   Collection_uri (\<lambda>x. []) term_collection True = Inr ''term.json'' \<and>
   Collection_uri (\<lambda>x. []) (term_collection\<lparr>filters := [(''user'', PInt 5)]\<rparr>) False
     = Inr ''term.json'' \<and>
   Collection_uri (\<lambda>x. [])
       (term_collection\<lparr>filters := [(''project'', PInt 5), (''ontology'', PInt 7)]\<rparr>) False
     = Inl ValueError \<and>
   Collection_uri (\<lambda>x. []) user_roles False = Inr ''user/5/role.json''"
proof -
  have s: "string_of_int 5 = ''5''" by code_simp
  have l: "lower ''Term'' = ''term''" by code_simp
  show ?thesis
    using Collection_uri_filters [of term_collection "\<lambda>x. []" "''project''" "PInt 5"]
      Collection_uri_filters
        [of "term_collection\<lparr>filters := [(''user'', PInt 5)]\<rparr>" "\<lambda>x. []" "''user''" "PInt 5"]
      Collection_uri_filters
        [of "term_collection\<lparr>filters := [(''project'', PInt 5), (''ontology'', PInt 7)]\<rparr>"
            "\<lambda>x. []" "''project''" "PInt 5"]
      Collection_uri_filters [of user_roles "\<lambda>x. []" "''user''" "PInt 5"]
    by (simp add: Collection_init_def Collection_callback_identifier_def s l)
qed

section \<open>The kind of the elements\<close>

text \<open>
  C9. A value that is not an instance of the collection's model is refused by
  \<open>__setitem__\<close> and by \<open>insert\<close> with \<open>TypeError\<close>, and a collection of
  another type is refused by \<open>+=\<close> and \<open>+\<close> with \<open>TypeError\<close>; the collection
  is returned as it was, its elements included.
\<close>

theorem Collection_kind_check:
  "(\<not> isinstance v (model c) \<longrightarrow>
      Collection_setitem c i v = (c, Some TypeError) \<and>
      Collection_insert c i v = (c, Some TypeError)) \<and>
   (coll_type c \<noteq> coll_type other \<longrightarrow>
      Collection_iadd c other = (c, Some TypeError) \<and>
      Collection_add c other = (c, Inl TypeError))"
  by (simp add: Collection_setitem_def Collection_insert_def Collection_iadd_def
      Collection_add_def)

text \<open>
  The statement at a collection of terms: an integer, a project, and a collection of
  another type.
\<close>

theorem Collection_kind_check_witness:
  "Collection_setitem term_collection 0 (Val (PInt 3)) = (term_collection, Some TypeError) \<and>
   Collection_insert term_collection 0 (Obj project5) = (term_collection, Some TypeError) \<and>
   Collection_iadd term_collection (term_collection\<lparr>coll_type := ''TagCollection''\<rparr>)
     = (term_collection, Some TypeError) \<and>
   Collection_add term_collection (term_collection\<lparr>coll_type := ''TagCollection''\<rparr>)
     = (term_collection, Inl TypeError)"
  using Collection_kind_check
          [of "Val (PInt 3)" term_collection 0 "term_collection\<lparr>coll_type := ''TagCollection''\<rparr>"]
        Collection_kind_check
          [of "Obj project5" term_collection 0 "term_collection\<lparr>coll_type := ''TagCollection''\<rparr>"]
  by (simp add: Collection_init_def Model_init_def store_key_def startswith_def setattr_def
      readonly_property_def assign_def)

section \<open>Chunked save\<close>

lemma collect_concat:
  "collect xs rs added fails =
     (added @ concat (map (\<lambda>((s, e), ok). if ok then slice xs s e else []) rs),
      fails @ concat (map (\<lambda>((s, e), ok). if ok then [] else slice xs s e) rs))"
  by (induction rs arbitrary: added fails) auto

lemma upt_split: "i \<le> j \<Longrightarrow> j \<le> k \<Longrightarrow> [i..<k] = [i..<j] @ [j..<k]"
  using upt_add_eq_append [of i j "k - j"] by simp

lemma slice_nth:
  assumes "e \<le> length xs"
  shows "slice xs s e = map ((!) xs) [s..<e]"
  unfolding slice_def
proof (rule nth_equalityI)
  show len: "length (take (e - s) (drop s xs)) = length (map ((!) xs) [s..<e])"
    using assms by simp
  fix i
  assume "i < length (take (e - s) (drop s xs))"
  then have "i < e - s" using len by simp
  then show "take (e - s) (drop s xs) ! i = map ((!) xs) [s..<e] ! i"
    using assms by simp
qed

lemma chunk_positions:
  assumes "0 < sz"
  shows "filter (\<lambda>i. P (i div sz)) [min (m * sz) n..<min (m * sz + sz) n]
           = (if P m then [m * sz..<min (m * sz + sz) n] else [])"
proof (cases "m * sz < n")
  case True
  have "\<forall>i \<in> set [m * sz..<min (m * sz + sz) n]. i div sz = m"
  proof
    fix i assume "i \<in> set [m * sz..<min (m * sz + sz) n]"
    then have "m * sz \<le> i" "i < m * sz + sz" by auto
    then show "i div sz = m"
      using assms by (intro div_nat_eqI) (simp_all add: mult.commute)
  qed
  then have "filter (\<lambda>i. P (i div sz)) [m * sz..<min (m * sz + sz) n]
               = filter (\<lambda>i. P m) [m * sz..<min (m * sz + sz) n]"
    by (intro filter_cong) auto
  with True show ?thesis by (simp add: min_def)
next
  case False
  then show ?thesis by simp
qed

lemma concat_chunks:
  assumes "0 < sz"
  shows "concat (map (\<lambda>k. if P k then slice xs (k * sz) (min (k * sz + sz) (length xs)) else [])
                   [0..<m])
           = map ((!) xs) (filter (\<lambda>i. P (i div sz)) [0..<min (m * sz) (length xs)])"
proof (induction m)
  case 0
  then show ?case by simp
next
  case (Suc m)
  let ?n = "length xs"
  have split: "[0..<min (sz + m * sz) ?n]
                 = [0..<min (m * sz) ?n] @ [min (m * sz) ?n..<min (m * sz + sz) ?n]"
    using upt_split [of 0 "min (m * sz) ?n" "min (m * sz + sz) ?n"]
    by (simp add: add.commute)
  show ?case
    using Suc.IH chunk_positions [OF assms, of P m ?n]
    by (simp add: split slice_nth)
qed

lemma chunks_cover: "0 < sz \<Longrightarrow> n \<le> ((n + sz - 1) div sz) * (sz::nat)"
proof -
  assume sz: "0 < sz"
  have "n + sz - 1 = ((n + sz - 1) div sz) * sz + (n + sz - 1) mod sz" by simp
  moreover have "(n + sz - 1) mod sz \<le> sz - 1" using sz by (simp add: less_Suc_eq_le [symmetric])
  ultimately show ?thesis using sz by linarith
qed

lemma index_in_chunks: "0 < sz \<Longrightarrow> i < n \<Longrightarrow> i div sz < (n + sz - 1) div (sz::nat)"
  using chunks_cover [of sz n]
  by (metis div_less_iff_less_mult order_less_le_trans)

lemma generic_chunk_parallel_eq:
  assumes "0 < cs"
  shows "generic_chunk_parallel xs w cs nw =
           map (\<lambda>k. ((k * nat cs, min (k * nat cs + nat cs) (length xs)),
                      (case w k (slice xs (k * nat cs) (min (k * nat cs + nat cs) (length xs))) of
                         Inl err \<Rightarrow> False | Inr b \<Rightarrow> b)))
             [0..<(length xs + nat cs - 1) div nat cs]"
  using assms
  by (simp add: generic_chunk_parallel_def chunk_ranges_def enumerate_eq_zip zip_map2
      zip_same_conv_map comp_def)

lemma collect_chunks:
  assumes "0 < cs"
  shows "collect xs (generic_chunk_parallel xs w cs nw) [] [] =
           (map ((!) xs)
              (filter (\<lambda>i. snd (generic_chunk_parallel xs w cs nw ! (i div nat cs)))
                 [0..<length xs]),
            map ((!) xs)
              (filter (\<lambda>i. \<not> snd (generic_chunk_parallel xs w cs nw ! (i div nat cs)))
                 [0..<length xs]))"
proof -
  define results where "results = generic_chunk_parallel xs w cs nw"
  let ?sz = "nat cs" and ?n = "length xs"
  let ?m = "(?n + ?sz - 1) div ?sz"
  let ?flag = "\<lambda>k. (case w k (slice xs (k * ?sz) (min (k * ?sz + ?sz) ?n)) of
                        Inl err \<Rightarrow> False | Inr b \<Rightarrow> b)"
  have sz: "0 < ?sz" using assms(1) by simp
  have sw: "(if \<not> b then u else v) = (if b then v else u)" for b and u v :: "'a list"
    by simp
  have res: "results = map (\<lambda>k. ((k * ?sz, min (k * ?sz + ?sz) ?n), ?flag k)) [0..<?m]"
    unfolding results_def by (rule generic_chunk_parallel_eq [OF assms(1)])
  have flag: "snd (results ! (i div ?sz)) = ?flag (i div ?sz)" if "i < ?n" for i
    using index_in_chunks [OF sz that] by (simp add: res)
  have full: "min (?m * ?sz) ?n = ?n"
    using chunks_cover [OF sz, of ?n] by simp
  have "concat (map (\<lambda>((s, e), ok). if ok then slice xs s e else []) results)
          = concat (map (\<lambda>k. if ?flag k then slice xs (k * ?sz) (min (k * ?sz + ?sz) ?n) else [])
                      [0..<?m])"
    by (simp add: res comp_def)
  also have "\<dots> = map ((!) xs) (filter (\<lambda>i. ?flag (i div ?sz)) [0..<?n])"
    using concat_chunks [OF sz, of ?flag xs ?m] by (simp only: full)
  also have "\<dots> = map ((!) xs) (filter (\<lambda>i. snd (results ! (i div ?sz))) [0..<?n])"
    by (intro arg_cong [where f = "map ((!) xs)"] filter_cong) (simp_all add: flag)
  finally have added: "concat (map (\<lambda>((s, e), ok). if ok then slice xs s e else []) results)
          = map ((!) xs) (filter (\<lambda>i. snd (results ! (i div ?sz))) [0..<?n])" .
  have "concat (map (\<lambda>((s, e), ok). if ok then [] else slice xs s e) results)
          = concat (map (\<lambda>k. if \<not> ?flag k then slice xs (k * ?sz) (min (k * ?sz + ?sz) ?n)
                               else [])
                      [0..<?m])"
    by (simp add: res comp_def sw)
  also have "\<dots> = map ((!) xs) (filter (\<lambda>i. \<not> ?flag (i div ?sz)) [0..<?n])"
    using concat_chunks [OF sz, of "\<lambda>k. \<not> ?flag k" xs ?m] by (simp only: full)
  also have "\<dots> = map ((!) xs) (filter (\<lambda>i. \<not> snd (results ! (i div ?sz))) [0..<?n])"
    by (intro arg_cong [where f = "map ((!) xs)"] filter_cong) (simp_all add: flag)
  finally have fails: "concat (map (\<lambda>((s, e), ok). if ok then [] else slice xs s e) results)
          = map ((!) xs) (filter (\<lambda>i. \<not> snd (results ! (i div ?sz))) [0..<?n])" .
  show ?thesis
    unfolding results_def [symmetric] by (simp add: collect_concat added fails)
qed

lemma all_added_iff:
  "length (map ((!) xs) (filter P [0..<length xs])) \<noteq> length xs
     \<longleftrightarrow> map ((!) xs) (filter (\<lambda>i. \<not> P i) [0..<length xs]) \<noteq> []"
proof -
  have "length (filter P [0..<length xs]) + length (filter (\<lambda>i. \<not> P i) [0..<length xs])
          = length xs"
    using sum_length_filter_compl [of P "[0..<length xs]"] by simp
  then show ?thesis by (cases "filter (\<lambda>i. \<not> P i) [0..<length xs]") auto
qed

lemma Collection_save_chunks:
  assumes "0 < cs"
  shows "Collection_save post c (ChunkInt cs) nw =
     (let results = generic_chunk_parallel (data c) (upload_fn post c) cs nw;
          ok = (\<lambda>i. snd (results ! (i div nat cs)));
          positions = [0..<length (data c)];
          fails = map ((!) (data c)) (filter (\<lambda>i. \<not> ok i) positions);
          added = map ((!) (data c)) (filter ok positions)
      in if fails = [] then Inr True
         else Inl (CollectionPartialUploadException added fails))"
  using all_added_iff [of "data c"
      "\<lambda>i. snd (generic_chunk_parallel (data c) (upload_fn post c) cs nw ! (i div nat cs))"]
  by (simp add: Collection_save_def Let_def collect_chunks [OF assms])

lemma chunk_ranges_47_15: "chunk_ranges 47 15 = [(0, 15), (15, 30), (30, 45), (45, 47)]"
  by (simp add: chunk_ranges_def upt_rec)

lemma ranges_47_15:
  "length xs = 47 \<Longrightarrow>
     map fst (generic_chunk_parallel xs w 15 nw) = [(0, 15), (15, 30), (30, 45), (45, 47)]"
  by (simp add: generic_chunk_parallel_def chunk_ranges_47_15 enumerate_eq_zip upt_rec)

lemma save_47_15:
  assumes len: "length (data c) = 47"
    and flags: "map snd (generic_chunk_parallel (data c) (upload_fn post c) 15 nw)
                  = [True, True, False, True]"
  shows "Collection_save post c (ChunkInt 15) nw
           = Inl (CollectionPartialUploadException
                    (take 30 (data c) @ drop 45 (data c)) (take 15 (drop 30 (data c))))"
proof -
  let ?r = "generic_chunk_parallel (data c) (upload_fn post c) 15 nw"
  have "?r = zip (map fst ?r) (map snd ?r)" by (simp add: zip_map_fst_snd)
  then have r: "?r = [((0, 15), True), ((15, 30), True), ((30, 45), False), ((45, 47), True)]"
    by (simp add: ranges_47_15 [OF len] flags)
  have t30: "take 30 (data c) = take 15 (data c) @ take 15 (drop 15 (data c))"
    using take_add [of 15 15 "data c"] by simp
  have d45: "take 2 (drop 45 (data c)) = drop 45 (data c)"
    using len by simp
  show ?thesis
    using len by (simp add: Collection_save_def r slice_def t30 d45)
qed

text \<open>
  C1. \<open>Collection.save\<close> with an integer chunk size that is positive: with the
  results of the chunk uploads, \<open>failed\<close> is the list of the elements at the
  positions whose chunk failed and \<open>created\<close> the list of the elements at the other
  positions, both in the order of the collection; the save returns \<open>True\<close> when
  \<open>failed\<close> is empty and raises the partial-upload exception with both lists
  otherwise. For 47 elements and chunks of 15 the ranges are (0,15), (15,30), (30,45),
  (45,47); when exactly the chunk of index 2 fails, \<open>failed\<close> is the elements at
  the positions 30 to 44 and \<open>created\<close> is the first 30 followed by the last 2.
\<close>

theorem Collection_save_partitions:
  "(0 < cs \<longrightarrow>
      Collection_save post c (ChunkInt cs) nw =
        (let results = generic_chunk_parallel (data c) (upload_fn post c) cs nw;
             ok = (\<lambda>i. snd (results ! (i div nat cs)));
             positions = [0..<length (data c)];
             fails = map ((!) (data c)) (filter (\<lambda>i. \<not> ok i) positions);
             added = map ((!) (data c)) (filter ok positions)
         in if fails = [] then Inr True
            else Inl (CollectionPartialUploadException added fails))) \<and>
   (length (data c) = 47 \<longrightarrow>
      map fst (generic_chunk_parallel (data c) (upload_fn post c) 15 nw)
        = [(0, 15), (15, 30), (30, 45), (45, 47)] \<and>
      (map snd (generic_chunk_parallel (data c) (upload_fn post c) 15 nw)
         = [True, True, False, True] \<longrightarrow>
       Collection_save post c (ChunkInt 15) nw
         = Inl (CollectionPartialUploadException
                  (take 30 (data c) @ drop 45 (data c)) (take 15 (drop 30 (data c))))))"
proof (intro conjI impI)
  assume "0 < cs"
  then show "Collection_save post c (ChunkInt cs) nw =
        (let results = generic_chunk_parallel (data c) (upload_fn post c) cs nw;
             ok = (\<lambda>i. snd (results ! (i div nat cs)));
             positions = [0..<length (data c)];
             fails = map ((!) (data c)) (filter (\<lambda>i. \<not> ok i) positions);
             added = map ((!) (data c)) (filter ok positions)
         in if fails = [] then Inr True
            else Inl (CollectionPartialUploadException added fails))"
    by (rule Collection_save_chunks)
next
  assume "length (data c) = 47"
  then show "map fst (generic_chunk_parallel (data c) (upload_fn post c) 15 nw)
        = [(0, 15), (15, 30), (30, 45), (45, 47)]"
    by (rule ranges_47_15)
next
  assume "length (data c) = 47"
    and "map snd (generic_chunk_parallel (data c) (upload_fn post c) 15 nw)
           = [True, True, False, True]"
  then show "Collection_save post c (ChunkInt 15) nw
         = Inl (CollectionPartialUploadException
                  (take 30 (data c) @ drop 45 (data c)) (take 15 (drop 30 (data c))))"
    by (rule save_47_15)
qed

lemma extend_instances:
  "\<forall>e \<in> set es. isinstance (Obj e) (model c) \<Longrightarrow>
     extend c (map Obj es) = (c\<lparr>data := data c @ es\<rparr>, None)"
proof (induction es arbitrary: c)
  case Nil
  then show ?case by simp
next
  case (Cons e es)
  have "Collection_insert c (int (length (data c))) (Obj e) = (c\<lparr>data := data c @ [e]\<rparr>, None)"
    using Cons.prems by (simp add: Collection_insert_def)
  moreover have "\<forall>x \<in> set es. isinstance (Obj x) (model (c\<lparr>data := data c @ [e]\<rparr>))"
    using Cons.prems by simp
  ultimately show ?case
    using Cons.IH [of "c\<lparr>data := data c @ [e]\<rparr>"] by simp
qed

lemma upload_fn_instances:
  assumes "\<forall>e \<in> set chunk. isinstance (Obj e) (model c)"
  shows "upload_fn post c k chunk
           = Inr (post k ((Collection_init (coll_type c) (model c) None (Some 0) 0)
                            \<lparr>data := chunk\<rparr>))"
proof -
  let ?tmp = "Collection_init (coll_type c) (model c) None (Some 0) 0"
  have m: "model ?tmp = model c" and d: "data ?tmp = []"
    by (simp_all add: Collection_init_def)
  have "extend ?tmp (map Obj chunk) = (?tmp\<lparr>data := data ?tmp @ chunk\<rparr>, None)"
    using assms by (intro extend_instances) (simp add: m)
  then show ?thesis by (simp add: upload_fn_def d)
qed

lemma set_slice: "set (slice xs s e) \<subseteq> set xs"
  unfolding slice_def
  by (meson order_trans set_drop_subset set_take_subset)

lemma flags_instances:
  assumes "\<forall>e \<in> set (data c). isinstance (Obj e) (model c)" and "0 < cs"
  shows "map snd (generic_chunk_parallel (data c) (upload_fn (\<lambda>k t. P k) c) cs nw)
           = map P [0..<(length (data c) + nat cs - 1) div nat cs]"
proof -
  have "upload_fn (\<lambda>k t. P k) c k (slice (data c) s e) = Inr (P k)" for k s e
    using assms(1) set_slice [of "data c" s e]
    by (subst upload_fn_instances) auto
  then show ?thesis
    by (simp add: generic_chunk_parallel_eq [OF assms(2)] comp_def)
qed

text \<open>
  The statement at a collection of 47 terms with the ids 0 to 46, saved in chunks of 15
  over a transport that refuses the chunk of index 2.
\<close>

theorem Collection_save_partitions_witness:
  "map fst (generic_chunk_parallel (data terms47) (upload_fn (\<lambda>k t. k \<noteq> 2) terms47) 15 0)
     = [(0, 15), (15, 30), (30, 45), (45, 47)] \<and>
   map snd (generic_chunk_parallel (data terms47) (upload_fn (\<lambda>k t. k \<noteq> 2) terms47) 15 0)
     = [True, True, False, True] \<and>
   Collection_save (\<lambda>k t. k \<noteq> 2) terms47 (ChunkInt 15) 0
     = Inl (CollectionPartialUploadException
              (map term_nr ([0..<30] @ [45..<47])) (map term_nr [30..<45]))"
proof -
  let ?post = "\<lambda>(k::nat) (t::addr collection). k \<noteq> 2"
  have len: "length (data terms47) = 47" by simp
  have inst: "\<forall>e \<in> set (data terms47). isinstance (Obj e) (model terms47)"
    by (simp add: Collection_init_def Term_init_def constructed_def call_populate_def
        shadowed_def Model_init_def store_key_def startswith_def setattr_def
        readonly_property_def assign_def)
  have four: "[0..<(47 + nat 15 - 1) div nat 15] = [0, 1, 2, 3]"
    by (simp add: upt_rec)
  have "map snd (generic_chunk_parallel (data terms47) (upload_fn ?post terms47) 15 0)
          = map (\<lambda>k. k \<noteq> 2) [0..<(length (data terms47) + nat 15 - 1) div nat 15]"
    using inst by (intro flags_instances) simp_all
  then have flags: "map snd (generic_chunk_parallel (data terms47) (upload_fn ?post terms47) 15 0)
                 = [True, True, False, True]"
    by (simp only: len four) simp
  have parts: "take 30 (data terms47) @ drop 45 (data terms47) = map term_nr ([0..<30] @ [45..<47])"
      "take 15 (drop 30 (data terms47)) = map term_nr [30..<45]"
    by (simp_all add: take_map drop_map)
  note th = Collection_save_partitions [of 15 ?post terms47 0, THEN conjunct2, THEN mp, OF len]
  have ranges: "map fst (generic_chunk_parallel (data terms47) (upload_fn ?post terms47) 15 0)
                  = [(0, 15), (15, 30), (30, 45), (45, 47)]"
    by (rule th [THEN conjunct1])
  have "Collection_save ?post terms47 (ChunkInt 15) 0
          = Inl (CollectionPartialUploadException
                   (take 30 (data terms47) @ drop 45 (data terms47))
                   (take 15 (drop 30 (data terms47))))"
    by (rule th [THEN conjunct2, THEN mp, OF flags])
  then have "Collection_save ?post terms47 (ChunkInt 15) 0
          = Inl (CollectionPartialUploadException
                   (map term_nr ([0..<30] @ [45..<47])) (map term_nr [30..<45]))"
    by (simp only: parts)
  with ranges flags show ?thesis by (intro conjI)
qed

text \<open>
  C1 as stated fails for a chunk size that is not positive. With the chunk size \<open>-1\<close>
  no chunk is formed, nothing is uploaded and \<open>added\<close> stays empty, so the save of
  a collection that is not empty raises the partial-upload exception although
  \<open>failed\<close> is empty.
\<close>

theorem negative_chunk_size_raises_with_nothing_failed:
  "length (data terms47) = 47 \<and>
   generic_chunk_parallel (data terms47) (upload_fn (\<lambda>k t. True) terms47) (- 1) 0 = [] \<and>
   Collection_save (\<lambda>k t. True) terms47 (ChunkInt (- 1)) 0
     = Inl (CollectionPartialUploadException [] [])"
  by (simp add: Collection_save_def generic_chunk_parallel_def)

end
